theory Spec2Isabelle
  imports Complex_Main "HOL-Library.AList"
begin

section \<open>Key values\<close>

text \<open>
  The keys that \<open>createRouteData\<close> and \<open>refetchRouteData\<close> compare are JavaScript data
  values: \<open>undefined\<close>, \<open>null\<close>, booleans, numbers, strings, functions, arrays and
  objects. An array, an object or a function is a reference: it carries the identity
  \<open>===\<close> compares; a function is given with its \<open>length\<close>, the number of its
  parameters. Arrays are dense, objects hold their own enumerable properties in the
  order \<open>Object.keys\<close> lists them; what an object inherits is answered by its prototype
  chain, below. Cyclic values are outside this model.
\<close>

datatype jsnum = NaN | Finite rat | Infinity bool

text \<open>
  A property key is a string. The canonical array-index strings \<open>"0"\<close>, \<open>"1"\<close>, ...
  are written \<open>Index n\<close>, every other string \<open>Name s\<close>.
\<close>

datatype pkey = Index nat | Name string

type_synonym ref = nat

datatype jsval =
    JUndefined
  | JNull
  | JBool bool
  | JNum jsnum
  | JStr string
  | JArr ref "jsval list"
  | JObj ref "(pkey \<times> jsval) list"
  | JFunc ref nat

datatype jstype = TUndefined | TObject | TBoolean | TNumber | TString | TFunction

datatype error = TypeError

fun typeof :: "jsval \<Rightarrow> jstype" where
  "typeof JUndefined = TUndefined"
| "typeof JNull = TObject"
| "typeof (JBool _) = TBoolean"
| "typeof (JNum _) = TNumber"
| "typeof (JStr _) = TString"
| "typeof (JArr _ _) = TObject"
| "typeof (JObj _ _) = TObject"
| "typeof (JFunc _ _) = TFunction"

text \<open>\<open>a === b\<close>: by value on primitives (\<open>NaN\<close> equals nothing), by identity on references.\<close>

fun strict_eq :: "jsval \<Rightarrow> jsval \<Rightarrow> bool" where
  "strict_eq JUndefined JUndefined = True"
| "strict_eq JNull JNull = True"
| "strict_eq (JBool x) (JBool y) = (x = y)"
| "strict_eq (JNum x) (JNum y) = (x \<noteq> NaN \<and> x = y)"
| "strict_eq (JStr s) (JStr t) = (s = t)"
| "strict_eq (JArr r _) (JArr r' _) = (r = r')"
| "strict_eq (JObj r _) (JObj r' _) = (r = r')"
| "strict_eq (JFunc r _) (JFunc r' _) = (r = r')"
| "strict_eq _ _ = False"

text \<open>The conversion to boolean that \<open>&&\<close>, \<open>||\<close>, \<open>!\<close> and \<open>if\<close> apply.\<close>

fun truthy :: "jsval \<Rightarrow> bool" where
  "truthy JUndefined = False"
| "truthy JNull = False"
| "truthy (JBool b) = b"
| "truthy (JNum n) = (n \<noteq> NaN \<and> n \<noteq> Finite 0)"
| "truthy (JStr s) = (s \<noteq> [])"
| "truthy (JArr _ _) = True"
| "truthy (JObj _ _) = True"
| "truthy (JFunc _ _) = True"

text \<open>\<open>Array.isArray(value)\<close>.\<close>

fun isArray :: "jsval \<Rightarrow> bool" where
  "isArray (JArr _ _) = True"
| "isArray _ = False"

text \<open>\<open>Object.keys(b)\<close> of an array or an object.\<close>

fun object_keys :: "jsval \<Rightarrow> pkey list" where
  "object_keys (JArr _ xs) = map Index [0..<length xs]"
| "object_keys (JObj _ ps) = map fst ps"
| "object_keys _ = []"

text \<open>
  The prototype chain of the runtime: what an array or an object answers for a key that
  is not a property of its own, \<open>undefined\<close> when no prototype has the key (for a plain
  object the chain is \<open>Object.prototype\<close>, which has \<open>constructor\<close>, \<open>toString\<close>, ...).
  It is a parameter of the key matcher.
\<close>

type_synonym prototype = "jsval \<Rightarrow> pkey \<Rightarrow> jsval"

text \<open>
  \<open>a[key]\<close> on an array or an object: an own property (an array has its elements and
  \<open>length\<close>), or else what the prototype chain answers. The code applies \<open>a[key]\<close> to
  arrays and objects only (line 163 guards line 164).
\<close>

fun get_prop :: "prototype \<Rightarrow> jsval \<Rightarrow> pkey \<Rightarrow> jsval" where
  "get_prop proto (JArr r xs) (Index i) =
     (if i < length xs then xs ! i else proto (JArr r xs) (Index i))"
| "get_prop proto (JArr r xs) (Name s) =
     (if s = ''length'' then JNum (Finite (of_nat (length xs))) else proto (JArr r xs) (Name s))"
| "get_prop proto (JObj r ps) k =
     (case map_of ps k of Some v \<Rightarrow> v | None \<Rightarrow> proto (JObj r ps) k)"
| "get_prop proto _ _ = JUndefined"

text \<open>
  \<open>a.length\<close> on any value: reading a property of \<open>undefined\<close> or \<open>null\<close> throws a
  TypeError, a string answers its length, a function the number of its parameters, a
  boolean or a number \<open>undefined\<close>.
\<close>

fun get_length :: "prototype \<Rightarrow> jsval \<Rightarrow> error + jsval" where
  "get_length proto JUndefined = Inl TypeError"
| "get_length proto JNull = Inl TypeError"
| "get_length proto (JBool _) = Inr JUndefined"
| "get_length proto (JNum _) = Inr JUndefined"
| "get_length proto (JStr s) = Inr (JNum (Finite (of_nat (length s))))"
| "get_length proto (JFunc _ n) = Inr (JNum (Finite (of_nat n)))"
| "get_length proto v = Inr (get_prop proto v (Name ''length''))"

section \<open>The key matcher\<close>

text \<open>
  \<open>Array.prototype.some\<close> with a callback that may throw: the first element whose
  callback throws or answers true ends the iteration.
\<close>

fun some :: "('a \<Rightarrow> error + bool) \<Rightarrow> 'a list \<Rightarrow> error + bool" where
  "some f [] = Inr False"
| "some f (x # xs) =
     (case f x of Inl e \<Rightarrow> Inl e | Inr True \<Rightarrow> Inr True | Inr False \<Rightarrow> some f xs)"

lemma some_cong [fundef_cong]:
  "xs = ys \<Longrightarrow> (\<And>x. x \<in> set ys \<Longrightarrow> f x = g x) \<Longrightarrow> some f xs = some g ys"
  by (induction ys arbitrary: xs) (auto split: sum.splits bool.splits)

text \<open>The condition \<open>a.length && !b.length\<close>; \<open>b.length\<close> is read only when \<open>a.length\<close> is truthy.\<close>

definition length_mismatch :: "prototype \<Rightarrow> jsval \<Rightarrow> jsval \<Rightarrow> error + bool" where
  "length_mismatch proto a b =
     (case get_length proto a of
        Inl e \<Rightarrow> Inl e
      | Inr la \<Rightarrow>
          if truthy la
          then (case get_length proto b of Inl e \<Rightarrow> Inl e | Inr lb \<Rightarrow> Inr (\<not> truthy lb))
          else Inr False)"

text \<open>
  A property that \<open>Object.keys(b)\<close> lists is an own property of \<open>b\<close>, and smaller than
  \<open>b\<close>: the recursion below ends.
\<close>

lemma size_get_prop:
  "k \<in> set (object_keys b) \<Longrightarrow> size (get_prop proto b k) < size b"
proof (cases b)
  case (JArr r xs)
  assume "k \<in> set (object_keys b)"
  with JArr obtain i where i: "k = Index i" "i < length xs" by auto
  have "size (xs ! i) \<le> size_list size xs"
    using size_list_estimation' [of "xs ! i" xs "size (xs ! i)" size] i by simp
  with JArr i show ?thesis by simp
next
  case (JObj r ps)
  assume "k \<in> set (object_keys b)"
  with JObj have "map_of ps k \<noteq> None" by (simp add: map_of_eq_None_iff)
  then obtain v where v: "map_of ps k = Some v" by auto
  then have "(k, v) \<in> set ps" by (rule map_of_SomeD)
  then have "size v \<le> size_list (size_prod (\<lambda>_. 0) size) ps"
    using size_list_estimation' [of "(k, v)" ps "size v" "size_prod (\<lambda>_. 0) size"] by simp
  with JObj v show ?thesis by simp
qed simp_all

text \<open>
  \<open>partialDeepEqual\<close> (lines 152 to 168), test by test. It throws where \<open>a.length\<close> or
  \<open>b.length\<close> does.
\<close>

function partialDeepEqual :: "prototype \<Rightarrow> jsval \<Rightarrow> jsval \<Rightarrow> error + bool" where
  "partialDeepEqual proto a b =
     (if strict_eq a b then Inr True
      else if typeof a \<noteq> typeof b then Inr False
      else case length_mismatch proto a b of
        Inl e \<Rightarrow> Inl e
      | Inr True \<Rightarrow> Inr False
      | Inr False \<Rightarrow>
          if truthy a \<and> truthy b \<and> typeof a = TObject \<and> typeof b = TObject
          then (case some (\<lambda>key. case partialDeepEqual proto (get_prop proto a key)
                                        (get_prop proto b key) of
                                   Inl e \<Rightarrow> Inl e | Inr r \<Rightarrow> Inr (\<not> r))
                          (object_keys b) of
                  Inl e \<Rightarrow> Inl e
                | Inr r \<Rightarrow> Inr (\<not> r))
          else Inr False)"
  by pat_completeness auto
termination
  by (relation "measure (\<lambda>(proto, a, b). size b)") (auto simp: size_get_prop)

declare partialDeepEqual.simps [simp del]

text \<open>
  The array literal \<open>[value]\<close> allocates a new array, whose identity no value in use has.
  \<open>max_ref\<close> is the largest identity that occurs in a value; a wrapper is allocated above
  the identities of both arguments of \<open>partialMatch\<close>.
\<close>

fun max_ref :: "jsval \<Rightarrow> ref" where
  "max_ref (JArr r xs) = fold (\<lambda>v m. max (max_ref v) m) xs r"
| "max_ref (JObj r ps) = fold (\<lambda>p m. max (max_ref (snd p)) m) ps r"
| "max_ref (JFunc r _) = r"
| "max_ref _ = 0"

definition ensureQueryKeyArray :: "ref \<Rightarrow> jsval \<Rightarrow> jsval" where
  "ensureQueryKeyArray fresh value = (if isArray value then value else JArr fresh [value])"

text \<open>\<open>partialMatch\<close> (lines 141 to 143); its two wrappers are two new arrays.\<close>

definition partialMatch :: "prototype \<Rightarrow> jsval \<Rightarrow> jsval \<Rightarrow> error + bool" where
  "partialMatch proto a b =
     (let fresh = Suc (max (max_ref a) (max_ref b))
      in partialDeepEqual proto (ensureQueryKeyArray fresh a) (ensureQueryKeyArray (Suc fresh) b))"

section \<open>The partial match of the spec\<close>








section \<open>Responses, the page event and the effects of a fetch\<close>

text \<open>
  A \<open>Response\<close> as the wrapper reads it: its status and its header collection, the list of
  (name, value) pairs that iterating a \<open>Headers\<close> object yields, names in the normalised
  form in which \<open>Headers\<close> compares them.
\<close>

record response =
  status :: nat
  headers :: "(string \<times> string) list"

text \<open>\<open>headers.get(name)\<close>: the value, or \<open>null\<close> (\<open>None\<close>) when the header is absent.\<close>

definition headers_get :: "(string \<times> string) list \<Rightarrow> string \<Rightarrow> string option" where
  "headers_get hs name = map_of hs name"

text \<open>
  What is imported from outside the sources is a parameter: the runtime flag \<open>isServer\<close>,
  the predicate \<open>isRedirectResponse\<close> and the constant \<open>LocationHeader\<close>; so is the
  prototype chain of the runtime.
\<close>

record env =
  isServer :: bool
  isRedirectResponse :: "response \<Rightarrow> bool"
  LocationHeader :: string
  proto_chain :: prototype

text \<open>
  Any value that a fetcher returns or throws, or that the wrapper throws: plain data, a
  \<open>Response\<close> instance, an error raised by the runtime, or an \<open>Error\<close> object of the
  fetcher's own with its message.
\<close>

datatype jsany = Data jsval | Resp response | RuntimeError error | UserError string


text \<open>How an awaited call ends: with a value, or with a thrown value.\<close>

datatype outcome = Resolved jsany | Rejected jsany

text \<open>
  The execution context handed to the fetcher: the ambient page event, or on the server
  the frozen object built from it with the marker \<open>FETCH_EVENT\<close>.
\<close>

datatype event = PageEvent | FetchEvent

type_synonym fetcher = "jsval \<Rightarrow> event \<Rightarrow> outcome"

text \<open>
  Everything the code changes: the status and headers of the page response, the router's
  navigations (\<open>navigate(url, {replace})\<close>), assignments to \<open>window.location.href\<close>,
  the transitions that a client has scheduled and not yet run (each one the navigation
  callback of a response), the callbacks handed to \<open>setTimeout\<close> (each one
  \<open>handleResponse\<close> of a response), the
  calls of the user fetcher, the module's set \<open>resources\<close> (a \<open>Set\<close>, in insertion order),
  the allocator of refetch handles and the calls \<open>refetch(key)\<close> made on them.
\<close>

type_synonym handle = nat

record world =
  statusCode :: nat
  responseHeaders :: "(string \<times> string) list"
  navigations :: "(string \<times> bool) list"
  location_href :: "string list"
  transitions :: "response list"
  timers :: "response list"
  fetcher_calls :: "(jsval \<times> event) list"
  resources :: "handle list"
  next_handle :: handle
  refetch_calls :: "(handle \<times> jsval) list"

definition navigate :: "string \<Rightarrow> bool \<Rightarrow> world \<Rightarrow> world" where
  "navigate url replace w = w\<lparr>navigations := navigations w @ [(url, replace)]\<rparr>"

definition setStatusCode :: "nat \<Rightarrow> world \<Rightarrow> world" where
  "setStatusCode code w = w\<lparr>statusCode := code\<rparr>"

text \<open>\<open>pageEvent.responseHeaders.set(name, value)\<close> replaces the value of a name or adds the name.\<close>

definition responseHeaders_set :: "string \<Rightarrow> string \<Rightarrow> world \<Rightarrow> world" where
  "responseHeaders_set name v w = w\<lparr>responseHeaders := AList.update name v (responseHeaders w)\<rparr>"

text \<open>\<open>headers.forEach(callback)\<close> calls \<open>callback(value, name)\<close> for each pair, in order.\<close>

definition headers_forEach ::
  "(string \<Rightarrow> string \<Rightarrow> world \<Rightarrow> world) \<Rightarrow> (string \<times> string) list \<Rightarrow> world \<Rightarrow> world" where
  "headers_forEach callback hs w = fold (\<lambda>(name, v). callback v name) hs w"

definition setTimeout :: "response \<Rightarrow> world \<Rightarrow> world" where
  "setTimeout r w = w\<lparr>timers := timers w @ [r]\<rparr>"

definition startsWith :: "string \<Rightarrow> string \<Rightarrow> bool" where
  "startsWith s pre = (take (length pre) s = pre)"

text \<open>
  The callback of \<open>startTransition\<close> (lines 48 to 57). \<open>url\<close> is \<open>null\<close> when the response
  has no Location header, and \<open>url.startsWith\<close> then throws a TypeError. The result is
  the error thrown, if any, and the world at that point.
\<close>

definition navigation :: "env \<Rightarrow> response \<Rightarrow> world \<Rightarrow> error option \<times> world" where
  "navigation env response w =
     (case headers_get (headers response) (LocationHeader env) of
        None \<Rightarrow> (Some TypeError, w)
      | Some url \<Rightarrow>
          if startsWith url ''/'' then (None, navigate url True w)
          else if \<not> isServer env then (None, w\<lparr>location_href := location_href w @ [url]\<rparr>)
          else (None, w))"

text \<open>
  Modelled from the spec: \<open>startTransition\<close> belongs to the host library. By section 4.3
  the navigation is "executed inside a scheduled reactive transition", and on a server
  "side effects run synchronously". On a server \<open>startTransition(fn)\<close> runs \<open>fn\<close> at once,
  and what \<open>fn\<close> throws it throws. On a client it schedules \<open>fn\<close> and returns; line 47
  discards what it returns, so nothing that \<open>fn\<close> does or throws later reaches the caller.
  The callback is named by its response.
\<close>

definition startTransition :: "env \<Rightarrow> response \<Rightarrow> world \<Rightarrow> error option \<times> world" where
  "startTransition env response w =
     (if isServer env then navigation env response w
      else (None, w\<lparr>transitions := transitions w @ [response]\<rparr>))"

text \<open>
  A later turn of a client runs the transition scheduled first: its callback, whose error
  (if any) is reported to no caller.
\<close>

definition run_transition :: "env \<Rightarrow> world \<Rightarrow> error option \<times> world" where
  "run_transition env w =
     (case transitions w of
        [] \<Rightarrow> (None, w)
      | response # rest \<Rightarrow> navigation env response (w\<lparr>transitions := rest\<rparr>))"

definition handleResponse :: "env \<Rightarrow> response \<Rightarrow> world \<Rightarrow> error option \<times> world" where
  "handleResponse env response w =
     (if isRedirectResponse env response
      then (case startTransition env response w of
              (Some e, w') \<Rightarrow> (Some e, w')
            | (None, w') \<Rightarrow>
                if isServer env
                then (None, headers_forEach (\<lambda>head value. responseHeaders_set value head)
                              (headers response) (setStatusCode (status response) w'))
                else (None, w'))
      else (None, w))"

text \<open>The second argument of the resource's fetcher: \<open>info.value\<close> and \<open>info.refetching\<close>.\<close>

record info =
  info_value :: jsany
  info_refetching :: jsval

text \<open>
  The condition of line 70,
  \<open>info.refetching && info.refetching !== true && !partialMatch(key, info.refetching)\<close>.
\<close>

definition skip_refetch :: "env \<Rightarrow> jsval \<Rightarrow> info \<Rightarrow> error + bool" where
  "skip_refetch env key i =
     (if truthy (info_refetching i) \<and> \<not> strict_eq (info_refetching i) (JBool True)
      then (case partialMatch (proto_chain env) key (info_refetching i) of
              Inl e \<Rightarrow> Inl e
            | Inr m \<Rightarrow> Inr (\<not> m))
      else Inr False)"

text \<open>The event of lines 74 to 82: the page event, replaced on the server by the frozen one.\<close>

definition fetch_event :: "env \<Rightarrow> event" where
  "fetch_event env = (if isServer env then FetchEvent else PageEvent)"

text \<open>The \<open>try\<close> block of \<open>resourceFetcher\<close> (lines 70 to 92).\<close>

definition try_block :: "env \<Rightarrow> fetcher \<Rightarrow> jsval \<Rightarrow> info \<Rightarrow> world \<Rightarrow> outcome \<times> world" where
  "try_block env fetcher key i w =
     (case skip_refetch env key i of
        Inl e \<Rightarrow> (Rejected (RuntimeError e), w)
      | Inr True \<Rightarrow> (Resolved (info_value i), w)
      | Inr False \<Rightarrow>
          (let event = fetch_event env;
               w1 = w\<lparr>fetcher_calls := fetcher_calls w @ [(key, event)]\<rparr>
           in case fetcher key event of
                Rejected e \<Rightarrow> (Rejected e, w1)
              | Resolved response \<Rightarrow>
                  (case response of
                     Resp r \<Rightarrow>
                       if isServer env
                       then (case handleResponse env r w1 of
                               (Some e, w2) \<Rightarrow> (Rejected (RuntimeError e), w2)
                             | (None, w2) \<Rightarrow> (Resolved response, w2))
                       else (Resolved response, setTimeout r w1)
                   | _ \<Rightarrow> (Resolved response, w1))))"

text \<open>The \<open>catch\<close> block (lines 93 to 103), entered with the thrown value \<open>e\<close>.\<close>

definition catch_block :: "env \<Rightarrow> jsany \<Rightarrow> world \<Rightarrow> outcome \<times> world" where
  "catch_block env e w =
     (case e of
        Resp r \<Rightarrow>
          if isServer env
          then (case handleResponse env r w of
                  (Some err, w') \<Rightarrow> (Rejected (RuntimeError err), w')
                | (None, w') \<Rightarrow> (Resolved e, w'))
          else (Resolved e, setTimeout r w)
      | _ \<Rightarrow> (Rejected e, w))"

definition resourceFetcher :: "env \<Rightarrow> fetcher \<Rightarrow> jsval \<Rightarrow> info \<Rightarrow> world \<Rightarrow> outcome \<times> world" where
  "resourceFetcher env fetcher key i w =
     (case try_block env fetcher key i w of
        (Rejected e, w') \<Rightarrow> catch_block env e w'
      | (Resolved v, w') \<Rightarrow> (Resolved v, w'))"

section \<open>createRouteData and the refetch registry\<close>

text \<open>
  The \<open>key\<close> option: a value (\<open>undefined\<close> when the option is absent), or a nullary
  function, given with the value it returns when the resource calls it.
\<close>

datatype key_source = KeyValue jsval | KeyFn jsval

record options =
  key :: key_source
  initialValue :: jsany

text \<open>\<open>options.key || true\<close> (line 107): a function is truthy, a falsy value gives way to \<open>true\<close>.\<close>

definition key_or_true :: "key_source \<Rightarrow> key_source" where
  "key_or_true k =
     (case k of
        KeyValue v \<Rightarrow> if truthy v then KeyValue v else KeyValue (JBool True)
      | KeyFn v \<Rightarrow> KeyFn v)"

text \<open>
  Modelled from the spec: the resource primitive \<open>createResource\<close> of the host library is
  not part of the sources. The key that the resource reads from its source is the value
  itself, or what the source function returns ("re-evaluated reactively to derive a fresh
  key", section 3).
\<close>

definition source_lookup :: "key_source \<Rightarrow> jsval" where
  "source_lookup source = (case source of KeyValue v \<Rightarrow> v | KeyFn v \<Rightarrow> v)"

text \<open>
  Modelled from the spec: by section 3 (Key) the values \<open>false\<close>, \<open>null\<close> and \<open>undefined\<close>
  denote "do not fetch".
\<close>

definition do_not_fetch :: "jsval \<Rightarrow> bool" where
  "do_not_fetch v = (v = JUndefined \<or> v = JNull \<or> v = JBool False)"

text \<open>
  Modelled from the spec: \<open>createResource(source, fetcher, options)\<close>. With a key that
  denotes "do not fetch" the resource makes no fetch; with any other key it calls its
  fetcher with that key, first at creation, with \<open>info.value\<close> the initial value and
  \<open>info.refetching\<close> false. The primitive returns the resource (here the outcome of the
  first fetch, if one was made) and its refetch capability, a new function (here a new
  handle). The storage option, \<open>createDeepSignal\<close>, plays no part in what follows.
\<close>

definition createResource ::
  "key_source \<Rightarrow> (jsval \<Rightarrow> info \<Rightarrow> world \<Rightarrow> outcome \<times> world) \<Rightarrow> jsany \<Rightarrow> world
   \<Rightarrow> (outcome option \<times> handle) \<times> world" where
  "createResource source fetch init w =
     (let refetch = next_handle w;
          w1 = w\<lparr>next_handle := Suc (next_handle w)\<rparr>;
          lookup = source_lookup source
      in if do_not_fetch lookup then ((None, refetch), w1)
         else (case fetch lookup \<lparr>info_value = init, info_refetching = JBool False\<rparr> w1 of
                 (out, w2) \<Rightarrow> ((Some out, refetch), w2)))"

text \<open>\<open>Set.prototype.add\<close> and \<open>Set.prototype.delete\<close> on a set kept in insertion order.\<close>

definition set_add :: "'a \<Rightarrow> 'a list \<Rightarrow> 'a list" where
  "set_add x xs = (if x \<in> set xs then xs else xs @ [x])"

definition set_delete :: "'a \<Rightarrow> 'a list \<Rightarrow> 'a list" where
  "set_delete x xs = removeAll x xs"

text \<open>
  \<open>createRouteData\<close> (lines 106 to 118) returns the resource; the model returns with it the
  refetch handle, which names the callback \<open>resources.delete(refetch)\<close> that \<open>onCleanup\<close>
  registers and \<open>cleanup\<close> runs when the owning scope is torn down.
\<close>

definition createRouteData ::
  "env \<Rightarrow> fetcher \<Rightarrow> options \<Rightarrow> world \<Rightarrow> (outcome option \<times> handle) \<times> world" where
  "createRouteData env fetcher opts w =
     (case createResource (key_or_true (key opts)) (resourceFetcher env fetcher)
             (initialValue opts) w of
        ((resource, refetch), w1) \<Rightarrow>
          ((resource, refetch), w1\<lparr>resources := set_add refetch (resources w1)\<rparr>))"

definition cleanup :: "handle \<Rightarrow> world \<Rightarrow> world" where
  "cleanup refetch w = w\<lparr>resources := set_delete refetch (resources w)\<rparr>"

text \<open>A call \<open>refetch(key)\<close> of a handle is recorded; what the resource then does is its own.\<close>

definition refetch_call :: "jsval \<Rightarrow> handle \<Rightarrow> world \<Rightarrow> world" where
  "refetch_call k refetch w = w\<lparr>refetch_calls := refetch_calls w @ [(refetch, k)]\<rparr>"

definition refetchRouteData :: "jsval \<Rightarrow> world \<Rightarrow> world" where
  "refetchRouteData k w = fold (refetch_call k) (resources w) w"

text \<open>
  The life of the module: instances are created, their scopes torn down and refetches
  requested, in any order, from the state in which the module is loaded.
\<close>

datatype action = Create fetcher options | Teardown handle | Refetch jsval

fun step :: "env \<Rightarrow> action \<Rightarrow> world \<Rightarrow> world" where
  "step env (Create fetcher opts) w = snd (createRouteData env fetcher opts w)"
| "step env (Teardown refetch) w = cleanup refetch w"
| "step env (Refetch k) w = refetchRouteData k w"

definition run :: "env \<Rightarrow> action list \<Rightarrow> world \<Rightarrow> world" where
  "run env acts w = fold (step env) acts w"

definition initial_world :: world where
  "initial_world =
     \<lparr>statusCode = 200, responseHeaders = [], navigations = [], location_href = [],
      transitions = [], timers = [], fetcher_calls = [], resources = [], next_handle = 0,
      refetch_calls = []\<rparr>"

text \<open>
  The registry is well formed when no handle occurs twice in it and every handle in it
  has been allocated.
\<close>

definition registry_ok :: "world \<Rightarrow> bool" where
  "registry_ok w = (distinct (resources w) \<and> list_all (\<lambda>h. h < next_handle w) (resources w))"

section \<open>Sample inputs\<close>

text \<open>
  Instances of the parameters for the concrete evaluations below: a redirect predicate
  after section 6 of the spec (a status in the 3xx range), the header name
  \<open>location\<close>, a prototype chain, a server and a client environment, a fetcher that
  throws its argument and one that returns it.

  The sample prototype chain answers, for every array and object, the methods that
  \<open>Object.prototype\<close> hands down to both, and \<open>constructor\<close> (the function \<open>Array\<close> or
  \<open>Object\<close>); each is a function with its number of parameters. The further methods of
  \<open>Array.prototype\<close> are left out of the sample.
\<close>

definition redirect_status :: "response \<Rightarrow> bool" where
  "redirect_status r = (300 \<le> status r \<and> status r < 400)"

definition inherited_methods :: "(string \<times> jsval) list" where
  "inherited_methods =
     [(''hasOwnProperty'', JFunc 1001 1), (''isPrototypeOf'', JFunc 1002 1),
      (''propertyIsEnumerable'', JFunc 1003 1), (''toLocaleString'', JFunc 1004 0),
      (''toString'', JFunc 1005 0), (''valueOf'', JFunc 1006 0)]"

fun sample_prototype :: prototype where
  "sample_prototype v (Index i) = JUndefined"
| "sample_prototype v (Name s) =
     (if s = ''constructor'' then (if isArray v then JFunc 1007 1 else JFunc 1008 1)
      else case map_of inherited_methods s of Some f \<Rightarrow> f | None \<Rightarrow> JUndefined)"

definition server_env :: env where
  "server_env = \<lparr>isServer = True, isRedirectResponse = redirect_status,
     LocationHeader = ''location'', proto_chain = sample_prototype\<rparr>"

definition client_env :: env where
  "client_env = \<lparr>isServer = False, isRedirectResponse = redirect_status,
     LocationHeader = ''location'', proto_chain = sample_prototype\<rparr>"

definition throwing :: "jsany \<Rightarrow> fetcher" where
  "throwing e k ev = Rejected e"

definition returning :: "jsany \<Rightarrow> fetcher" where
  "returning v k ev = Resolved v"

section \<open>Properties of the key matcher\<close>







lemma partialMatch_wrapped_empty:
  "\<not> isArray x \<Longrightarrow> partialMatch proto x (JArr r' []) = Inr False"
proof -
  assume x: "\<not> isArray x"
  define fresh where "fresh = Suc (max (max_ref x) (max_ref (JArr r' [])))"
  have "fresh \<noteq> r'" by (simp add: fresh_def)
  then have "partialDeepEqual proto (JArr fresh [x]) (JArr r' []) = Inr False"
    by (subst partialDeepEqual.simps) (simp add: length_mismatch_def)
  with x show ?thesis
    by (simp add: partialMatch_def ensureQueryKeyArray_def Let_def fresh_def)
qed

text \<open>
  Claim C7. \<open>partialMatch([], [])\<close> is true, and \<open>partialMatch(x, [])\<close> is false for
  every non-empty \<open>x\<close>: a value that is not an array (which \<open>ensureQueryKeyArray\<close> wraps
  into a one-element array), or an array with at least one element (an object other than
  the empty refresh key, so of another identity). This holds whatever the prototype chain.
\<close>

theorem partialMatch_empty_pattern:
  "partialMatch proto (JArr r []) (JArr r' []) = Inr True
   \<and> (\<not> isArray x \<longrightarrow> partialMatch proto x (JArr r' []) = Inr False)
   \<and> (xs \<noteq> [] \<and> r \<noteq> r' \<longrightarrow> partialMatch proto (JArr r xs) (JArr r' []) = Inr False)"
proof (intro conjI impI)
  show "partialMatch proto (JArr r []) (JArr r' []) = Inr True"
    by (simp add: partialMatch_def ensureQueryKeyArray_def Let_def partialDeepEqual.simps
        length_mismatch_def)
next
  assume "\<not> isArray x"
  then show "partialMatch proto x (JArr r' []) = Inr False" by (rule partialMatch_wrapped_empty)
next
  assume "xs \<noteq> [] \<and> r \<noteq> r'"
  then show "partialMatch proto (JArr r xs) (JArr r' []) = Inr False"
    by (simp add: partialMatch_def ensureQueryKeyArray_def Let_def partialDeepEqual.simps
        length_mismatch_def)
qed

theorem partialMatch_empty_pattern_witness:
  "partialMatch sample_prototype (JArr 1 []) (JArr 2 []) = Inr True
   \<and> \<not> isArray (JStr ''posts'')
   \<and> partialMatch sample_prototype (JStr ''posts'') (JArr 2 []) = Inr False
   \<and> [JStr ''posts''] \<noteq> [] \<and> (1::nat) \<noteq> 2
   \<and> partialMatch sample_prototype (JArr 1 [JStr ''posts'']) (JArr 2 []) = Inr False"
  using partialMatch_empty_pattern [of sample_prototype 1 2 "JStr ''posts''" "[JStr ''posts'']"]
  by simp

text \<open>
  Claim C9. \<open>partialMatch\<close> is not total: \<open>partialMatch([null], [{}])\<close> reaches
  \<open>partialDeepEqual(null, {})\<close>, where both operands have type \<open>"object"\<close> and
  \<open>a.length\<close> is read from \<open>null\<close> before the guard \<open>a && b\<close>: a TypeError, whatever the
  prototype chain.
\<close>

theorem partialMatch_null_entry_throws:
  "partialMatch proto (JArr 1 [JNull]) (JArr 2 [JObj 3 []]) = Inl TypeError"
  by (simp add: partialMatch_def ensureQueryKeyArray_def partialDeepEqual.simps length_mismatch_def)

text \<open>
  A key that the candidate does not own is read through the prototype chain: the pattern
  \<open>{constructor: undefined}\<close> does not match the candidate \<open>{}\<close>, whose \<open>constructor\<close> is
  the inherited function.
\<close>

lemma inherited_property_is_read:
  "partialMatch sample_prototype (JObj 1 []) (JObj 2 [(Name ''constructor'', JUndefined)])
   = Inr False"
  by (simp add: partialMatch_def ensureQueryKeyArray_def partialDeepEqual.simps length_mismatch_def
      inherited_methods_def)







section \<open>Properties of the fetch wrapper\<close>

lemma headers_forEach_set:
  "headers_forEach (\<lambda>head value. responseHeaders_set value head) hs w =
   w\<lparr>responseHeaders := fold (\<lambda>(name, v). AList.update name v) hs (responseHeaders w)\<rparr>"
  unfolding headers_forEach_def
  by (induction hs arbitrary: w) (auto simp: responseHeaders_set_def)

lemma navigation_frame:
  "navigation env r w = (res, w') \<Longrightarrow>
   fetcher_calls w' = fetcher_calls w \<and> resources w' = resources w \<and>
   next_handle w' = next_handle w \<and> refetch_calls w' = refetch_calls w \<and> timers w' = timers w
   \<and> statusCode w' = statusCode w \<and> responseHeaders w' = responseHeaders w
   \<and> transitions w' = transitions w"
  by (auto simp: navigation_def navigate_def split: option.splits if_splits)

lemma handleResponse_frame:
  "handleResponse env r w = (res, w') \<Longrightarrow>
   fetcher_calls w' = fetcher_calls w \<and> resources w' = resources w \<and>
   next_handle w' = next_handle w \<and> refetch_calls w' = refetch_calls w \<and> timers w' = timers w"
  by (auto simp: handleResponse_def startTransition_def headers_forEach_set setStatusCode_def
      split: if_splits prod.splits option.splits dest: navigation_frame)

lemma try_block_frame:
  "try_block env f k i w = (out, w') \<Longrightarrow>
   resources w' = resources w \<and> next_handle w' = next_handle w \<and> refetch_calls w' = refetch_calls w"
  by (auto simp: try_block_def Let_def setTimeout_def
      split: sum.splits bool.splits outcome.splits jsany.splits if_splits prod.splits option.splits
      dest!: handleResponse_frame)

lemma catch_block_frame:
  "catch_block env e w = (out, w') \<Longrightarrow>
   resources w' = resources w \<and> next_handle w' = next_handle w \<and> refetch_calls w' = refetch_calls w"
  by (auto simp: catch_block_def setTimeout_def
      split: jsany.splits if_splits prod.splits option.splits dest!: handleResponse_frame)

lemma resourceFetcher_frame:
  "resourceFetcher env f k i w = (out, w') \<Longrightarrow>
   resources w' = resources w \<and> next_handle w' = next_handle w \<and> refetch_calls w' = refetch_calls w"
  by (auto simp: resourceFetcher_def split: prod.splits outcome.splits
      dest!: try_block_frame catch_block_frame)

lemma resourceFetcher_calls:
  assumes "skip_refetch env k i = Inr False"
  shows "fetcher_calls (snd (resourceFetcher env f k i w)) = fetcher_calls w @ [(k, fetch_event env)]"
  using assms
  by (auto simp: resourceFetcher_def try_block_def catch_block_def Let_def setTimeout_def
      split: prod.splits outcome.splits jsany.splits option.splits dest!: handleResponse_frame)

lemma map_of_fold_update:
  "map_of (fold (\<lambda>(name, v). AList.update name v) hs al) = map_of al ++ map_of (rev hs)"
proof (induction hs arbitrary: al)
  case Nil
  show ?case by simp
next
  case (Cons h hs)
  obtain n v where h: "h = (n, v)" by (cases h)
  have "map_of (fold (\<lambda>(name, v). AList.update name v) (h # hs) al)
        = map_of (AList.update n v al) ++ map_of (rev hs)"
    using Cons.IH [of "AList.update n v al"] h by simp
  also have "\<dots> = map_of al ++ map_of (rev (h # hs))"
    by (simp add: h update_conv' map_add_upd_left fun_eq_iff map_add_def split: option.splits)
  finally show ?case .
qed

text \<open>
  Claim C3. A refetch whose refresh key is set (truthy, as line 70 tests it) and is not
  the sentinel \<open>true\<close>, and which does not partially match the current key, returns the
  previous cached value and changes nothing: in particular the user fetcher is not called.
\<close>

theorem refetch_without_match_returns_cached:
  "truthy (info_refetching i) \<Longrightarrow> \<not> strict_eq (info_refetching i) (JBool True) \<Longrightarrow>
   partialMatch (proto_chain env) k (info_refetching i) = Inr False \<Longrightarrow>
   resourceFetcher env fetcher k i w = (Resolved (info_value i), w)"
  by (simp add: resourceFetcher_def try_block_def skip_refetch_def)

theorem refetch_without_match_returns_cached_witness:
  "truthy (info_refetching \<lparr>info_value = Data (JStr ''cached''), info_refetching = JArr 7 [JStr ''posts'']\<rparr>)
   \<and> \<not> strict_eq (info_refetching \<lparr>info_value = Data (JStr ''cached''), info_refetching = JArr 7 [JStr ''posts'']\<rparr>) (JBool True)
   \<and> partialMatch (proto_chain client_env) (JArr 3 [JStr ''users''])
        (info_refetching \<lparr>info_value = Data (JStr ''cached''), info_refetching = JArr 7 [JStr ''posts'']\<rparr>) = Inr False
   \<and> resourceFetcher client_env (returning (Data JNull)) (JArr 3 [JStr ''users''])
        \<lparr>info_value = Data (JStr ''cached''), info_refetching = JArr 7 [JStr ''posts'']\<rparr> initial_world
       = (Resolved (Data (JStr ''cached'')), initial_world)"
  using refetch_without_match_returns_cached
    [of "\<lparr>info_value = Data (JStr ''cached''), info_refetching = JArr 7 [JStr ''posts'']\<rparr>"
        client_env "JArr 3 [JStr ''users'']" "returning (Data JNull)" initial_world]
  by (simp add: partialMatch_def ensureQueryKeyArray_def partialDeepEqual.simps length_mismatch_def)




text \<open>
  Claim C10, as stated, fails on a client: \<open>handleResponse\<close> of a redirect without a
  Location header schedules the transition and returns, without an error.
\<close>

theorem handleResponse_on_client_returns:
  "isRedirectResponse client_env \<lparr>status = 301, headers = [(''content-type'', ''text/html'')]\<rparr>
   \<and> headers_get (headers \<lparr>status = 301, headers = [(''content-type'', ''text/html'')]\<rparr>)
        (LocationHeader client_env) = None
   \<and> handleResponse client_env \<lparr>status = 301, headers = [(''content-type'', ''text/html'')]\<rparr>
        initial_world
       = (None, initial_world
            \<lparr>transitions := [\<lparr>status = 301, headers = [(''content-type'', ''text/html'')]\<rparr>]\<rparr>)"
  by (simp add: client_env_def redirect_status_def headers_get_def handleResponse_def
      startTransition_def initial_world_def)

text \<open>
  Claim C10, amended. For every response with redirect status that lacks a Location
  header, the navigation callback reads the null target and calls \<open>startsWith\<close> on it: it
  throws a TypeError and performs no navigation. On a server the error leaves
  \<open>handleResponse\<close>, which changes nothing. On a client \<open>handleResponse\<close> schedules the
  transition and returns normally; the callback throws when the transition runs.
\<close>

theorem redirect_without_location_throws:
  assumes "isRedirectResponse env r" and "headers_get (headers r) (LocationHeader env) = None"
  shows "navigation env r w = (Some TypeError, w)
     \<and> (isServer env \<longrightarrow> handleResponse env r w = (Some TypeError, w))
     \<and> (\<not> isServer env \<longrightarrow>
          handleResponse env r w = (None, w\<lparr>transitions := transitions w @ [r]\<rparr>))
     \<and> (\<not> isServer env \<and> transitions w = [] \<longrightarrow>
          run_transition env (snd (handleResponse env r w)) = (Some TypeError, w))"
  using assms
  by (simp add: handleResponse_def startTransition_def navigation_def run_transition_def)

theorem redirect_without_location_throws_witness:
  "isRedirectResponse server_env \<lparr>status = 301, headers = [(''content-type'', ''text/html'')]\<rparr>
   \<and> headers_get (headers \<lparr>status = 301, headers = [(''content-type'', ''text/html'')]\<rparr>)
        (LocationHeader server_env) = None
   \<and> isServer server_env
   \<and> handleResponse server_env \<lparr>status = 301, headers = [(''content-type'', ''text/html'')]\<rparr>
        initial_world
       = (Some TypeError, initial_world)
   \<and> isRedirectResponse client_env \<lparr>status = 301, headers = [(''content-type'', ''text/html'')]\<rparr>
   \<and> headers_get (headers \<lparr>status = 301, headers = [(''content-type'', ''text/html'')]\<rparr>)
        (LocationHeader client_env) = None
   \<and> \<not> isServer client_env
   \<and> transitions initial_world = []
   \<and> run_transition client_env
        (snd (handleResponse client_env
                \<lparr>status = 301, headers = [(''content-type'', ''text/html'')]\<rparr> initial_world))
       = (Some TypeError, initial_world)"
proof -
  have t: "transitions initial_world = []" by (simp add: initial_world_def)
  show ?thesis
    using t redirect_without_location_throws
      [of server_env "\<lparr>status = 301, headers = [(''content-type'', ''text/html'')]\<rparr>" initial_world]
      redirect_without_location_throws
      [of client_env "\<lparr>status = 301, headers = [(''content-type'', ''text/html'')]\<rparr>" initial_world]
    by (auto simp: server_env_def client_env_def redirect_status_def headers_get_def)
qed

text \<open>
  Claim C4 fails on the server for a redirect without a Location header: \<open>handleResponse\<close>
  throws inside the \<open>catch\<close> block, and the wrapper rejects with the TypeError instead of
  resolving with the thrown response.
\<close>

theorem thrown_redirect_without_location_rejects:
  "isRedirectResponse server_env \<lparr>status = 302, headers = []\<rparr>
   \<and> resourceFetcher server_env (throwing (Resp \<lparr>status = 302, headers = []\<rparr>)) (JBool True)
        \<lparr>info_value = Data JUndefined, info_refetching = JBool False\<rparr> initial_world
       = (Rejected (RuntimeError TypeError),
          initial_world\<lparr>fetcher_calls := [(JBool True, FetchEvent)]\<rparr>)"
  by (simp add: server_env_def redirect_status_def resourceFetcher_def try_block_def
      skip_refetch_def fetch_event_def throwing_def catch_block_def handleResponse_def
      startTransition_def navigation_def headers_get_def initial_world_def)

text \<open>
  On a client the response is always the resolved value, whether returned or thrown:
  \<open>handleResponse\<close> runs later, from the timer.
\<close>

lemma redirect_resolved_on_client:
  assumes "\<not> isServer env" and "skip_refetch env k i = Inr False"
    and "fetcher k (fetch_event env) = Rejected (Resp r) \<or> fetcher k (fetch_event env) = Resolved (Resp r)"
  shows "fst (resourceFetcher env fetcher k i w) = Resolved (Resp r)"
  using assms
  by (auto simp: resourceFetcher_def try_block_def catch_block_def Let_def)

text \<open>
  Claim C5 fails for the same redirect without a Location header: on the server
  \<open>handleResponse\<close> throws before line 60, so the page response keeps its status and
  receives no header.
\<close>

theorem server_redirect_without_location_leaves_page_response:
  "isRedirectResponse server_env \<lparr>status = 302, headers = [(''set-cookie'', ''a=b'')]\<rparr>
   \<and> handleResponse server_env \<lparr>status = 302, headers = [(''set-cookie'', ''a=b'')]\<rparr> initial_world
       = (Some TypeError, initial_world)
   \<and> statusCode initial_world = 200 \<and> responseHeaders initial_world = []"
  by (simp add: server_env_def redirect_status_def handleResponse_def
      startTransition_def navigation_def headers_get_def initial_world_def)

text \<open>
  With a Location header, the server path sets the status and copies every header under
  its own name, a later pair of the same name overwriting an earlier one.
\<close>

lemma handleResponse_server_with_location:
  assumes "isServer env" and "isRedirectResponse env r"
    and "headers_get (headers r) (LocationHeader env) = Some url"
  shows "\<exists>w'. handleResponse env r w = (None, w') \<and> statusCode w' = status r
           \<and> map_of (responseHeaders w') = map_of (responseHeaders w) ++ map_of (rev (headers r))"
  using assms
  by (auto simp: handleResponse_def startTransition_def navigation_def headers_forEach_set
      setStatusCode_def navigate_def map_of_fold_update)

section \<open>Properties of createRouteData\<close>

text \<open>
  Claim C1, as stated, fails: with the literal key \<open>false\<close> the source handed to the
  resource is \<open>true\<close>, and the user fetcher is called with the key \<open>true\<close>.
\<close>

theorem literal_false_key_fetches:
  "fetcher_calls (snd (createRouteData client_env (returning (Data (JStr ''data'')))
      \<lparr>key = KeyValue (JBool False), initialValue = Data JUndefined\<rparr> initial_world))
   = [(JBool True, PageEvent)]"
  by (simp add: createRouteData_def createResource_def key_or_true_def source_lookup_def
      do_not_fetch_def Let_def resourceFetcher_def try_block_def skip_refetch_def fetch_event_def
      returning_def client_env_def initial_world_def)

text \<open>
  Claim C1, amended. A key option that is the literal \<open>false\<close>, \<open>null\<close> or \<open>undefined\<close>
  is replaced by \<open>true\<close>: the resource fetches, calling the user fetcher once with the
  key \<open>true\<close>. The key denotes "do not fetch" when it is a function that returns
  \<open>false\<close>, \<open>null\<close> or \<open>undefined\<close>: then the user fetcher is not called.
\<close>

theorem falsy_key_literal_or_function:
  assumes "do_not_fetch v"
  shows "fetcher_calls (snd (createRouteData env fetcher \<lparr>key = KeyValue v, initialValue = init\<rparr> w))
           = fetcher_calls w @ [(JBool True, fetch_event env)]
         \<and> fetcher_calls (snd (createRouteData env fetcher \<lparr>key = KeyFn v, initialValue = init\<rparr> w))
           = fetcher_calls w"
proof
  have t: "\<not> truthy v" using assms by (auto simp: do_not_fetch_def)
  have s: "skip_refetch env (JBool True) \<lparr>info_value = init, info_refetching = JBool False\<rparr> = Inr False"
    by (simp add: skip_refetch_def)
  show "fetcher_calls (snd (createRouteData env fetcher \<lparr>key = KeyValue v, initialValue = init\<rparr> w))
           = fetcher_calls w @ [(JBool True, fetch_event env)]"
    using t resourceFetcher_calls [OF s, of fetcher "w\<lparr>next_handle := Suc (next_handle w)\<rparr>"]
    by (auto simp: createRouteData_def createResource_def key_or_true_def source_lookup_def
        do_not_fetch_def Let_def split: prod.splits)
  show "fetcher_calls (snd (createRouteData env fetcher \<lparr>key = KeyFn v, initialValue = init\<rparr> w))
           = fetcher_calls w"
    using assms
    by (simp add: createRouteData_def createResource_def key_or_true_def source_lookup_def Let_def)
qed

theorem falsy_key_literal_or_function_witness:
  "do_not_fetch JNull
   \<and> fetcher_calls (snd (createRouteData server_env (returning (Data (JStr ''data'')))
        \<lparr>key = KeyValue JNull, initialValue = Data JUndefined\<rparr> initial_world))
      = fetcher_calls initial_world @ [(JBool True, fetch_event server_env)]
   \<and> fetcher_calls (snd (createRouteData server_env (returning (Data (JStr ''data'')))
        \<lparr>key = KeyFn JNull, initialValue = Data JUndefined\<rparr> initial_world))
      = fetcher_calls initial_world"
  using falsy_key_literal_or_function
    [of JNull server_env "returning (Data (JStr ''data''))" "Data JUndefined" initial_world]
  by (simp add: do_not_fetch_def)

section \<open>Properties of the refetch registry\<close>

lemma fold_refetch_call:
  "fold (refetch_call k) hs w = w\<lparr>refetch_calls := refetch_calls w @ map (\<lambda>r. (r, k)) hs\<rparr>"
  by (induction hs arbitrary: w) (simp_all add: refetch_call_def)

lemma refetchRouteData_calls:
  "refetchRouteData k w = w\<lparr>refetch_calls := refetch_calls w @ map (\<lambda>r. (r, k)) (resources w)\<rparr>"
  by (simp add: refetchRouteData_def fold_refetch_call)

lemma createRouteData_registry:
  "createRouteData env f opts w = ((res, h), w') \<Longrightarrow>
   h = next_handle w \<and> next_handle w' = Suc (next_handle w)
   \<and> resources w' = set_add (next_handle w) (resources w)"
  by (auto simp: createRouteData_def createResource_def Let_def
      split: prod.splits if_splits dest!: resourceFetcher_frame)

lemma registry_ok_create:
  assumes "registry_ok w"
  shows "registry_ok (snd (createRouteData env f opts w))"
proof -
  obtain res h w' where c: "createRouteData env f opts w = ((res, h), w')"
    by (metis surj_pair)
  from createRouteData_registry [OF c] assms have "next_handle w \<notin> set (resources w)"
    by (auto simp: registry_ok_def list_all_iff)
  with createRouteData_registry [OF c] assms c show ?thesis
    by (auto simp: registry_ok_def list_all_iff set_add_def)
qed

lemma registry_ok_step: "registry_ok w \<Longrightarrow> registry_ok (step env a w)"
proof (cases a)
  case (Create f opts)
  assume "registry_ok w"
  with Create show ?thesis by (simp add: registry_ok_create)
next
  case (Teardown h)
  assume "registry_ok w"
  with Teardown show ?thesis
    by (auto simp: registry_ok_def cleanup_def set_delete_def list_all_iff distinct_removeAll)
next
  case (Refetch k)
  assume "registry_ok w"
  with Refetch show ?thesis by (simp add: registry_ok_def refetchRouteData_calls)
qed

lemma registry_ok_fold: "registry_ok w \<Longrightarrow> registry_ok (fold (step env) acts w)"
  by (induction acts arbitrary: w) (simp_all add: registry_ok_step)

lemma registry_ok_run: "registry_ok (run env acts initial_world)"
  unfolding run_def by (rule registry_ok_fold) (simp add: registry_ok_def initial_world_def)

lemma count_list_distinct:
  "distinct xs \<Longrightarrow> count_list xs x = (if x \<in> set xs then 1 else 0)"
  by (induction xs) auto

lemma two_instances:
  "run client_env
     [Create (returning (Data JNull)) \<lparr>key = KeyValue (JStr ''a''), initialValue = Data JUndefined\<rparr>,
      Create (returning (Data JNull)) \<lparr>key = KeyValue (JStr ''b''), initialValue = Data JUndefined\<rparr>]
     initial_world
   = initial_world\<lparr>fetcher_calls := [(JStr ''a'', PageEvent), (JStr ''b'', PageEvent)],
       resources := [0, 1], next_handle := 2\<rparr>"
  by (simp add: run_def createRouteData_def createResource_def key_or_true_def source_lookup_def
      do_not_fetch_def Let_def resourceFetcher_def try_block_def skip_refetch_def fetch_event_def
      returning_def client_env_def initial_world_def set_add_def numeral_2_eq_2)

text \<open>
  Claim C8. In every state \<open>w\<close> that creations, teardowns and refetches reach from the
  initial one: a handle occurs at most once in the registry; \<open>createRouteData\<close> leaves its
  new handle in the registry, exactly once; the teardown of an instance removes its
  handle, and leaves the state as it is when the handle is absent; after the teardown of
  \<open>h\<close>, \<open>refetchRouteData()\<close> calls \<open>refetch(undefined)\<close> once for each entry of the registry, in
  which every handle that was registered occurs exactly once and \<open>h\<close> does not occur. The
  loop of \<open>refetchRouteData\<close> has no failing step of its own: it is a total function.
\<close>

theorem registry_lifecycle:
  assumes w: "w = run env acts initial_world"
  shows "count_list (resources w) h \<le> 1
     \<and> count_list (resources (snd (createRouteData env f opts w)))
          (snd (fst (createRouteData env f opts w))) = 1
     \<and> h \<notin> set (resources (cleanup h w))
     \<and> (h \<notin> set (resources w) \<longrightarrow> cleanup h w = w)
     \<and> refetch_calls (refetchRouteData JUndefined (cleanup h w))
         = refetch_calls w @ map (\<lambda>r. (r, JUndefined)) (resources (cleanup h w))
     \<and> count_list (resources (cleanup h w)) r = (if r \<in> set (resources w) \<and> r \<noteq> h then 1 else 0)"
proof (intro conjI)
  have ok: "registry_ok w" unfolding w by (rule registry_ok_run)
  then have d: "distinct (resources w)" by (simp add: registry_ok_def)
  show "count_list (resources w) h \<le> 1" using d by (simp add: count_list_distinct)
  obtain res h' w' where c: "createRouteData env f opts w = ((res, h'), w')"
    by (metis surj_pair)
  have "registry_ok w'" using registry_ok_create [OF ok, of env f opts] c by simp
  then have "distinct (resources w')" by (simp add: registry_ok_def)
  moreover have "h' \<in> set (resources w')"
    using createRouteData_registry [OF c] by (simp add: set_add_def)
  ultimately show "count_list (resources (snd (createRouteData env f opts w)))
          (snd (fst (createRouteData env f opts w))) = 1"
    using c by (simp add: count_list_distinct)
  show "h \<notin> set (resources (cleanup h w))" by (simp add: cleanup_def set_delete_def)
  show "h \<notin> set (resources w) \<longrightarrow> cleanup h w = w"
    by (simp add: cleanup_def set_delete_def)
  show "refetch_calls (refetchRouteData JUndefined (cleanup h w))
         = refetch_calls w @ map (\<lambda>r. (r, JUndefined)) (resources (cleanup h w))"
    by (simp add: refetchRouteData_calls cleanup_def)
  have "distinct (resources (cleanup h w))"
    using d by (simp add: cleanup_def set_delete_def distinct_removeAll)
  then show "count_list (resources (cleanup h w)) r
       = (if r \<in> set (resources w) \<and> r \<noteq> h then 1 else 0)"
    by (auto simp: count_list_distinct cleanup_def set_delete_def)
qed

theorem registry_lifecycle_witness:
  "count_list (resources (run client_env
     [Create (returning (Data JNull)) \<lparr>key = KeyValue (JStr ''a''), initialValue = Data JUndefined\<rparr>,
      Create (returning (Data JNull)) \<lparr>key = KeyValue (JStr ''b''), initialValue = Data JUndefined\<rparr>]
     initial_world)) 0 = 1
   \<and> (7::nat) \<notin> set (resources (run client_env
     [Create (returning (Data JNull)) \<lparr>key = KeyValue (JStr ''a''), initialValue = Data JUndefined\<rparr>,
      Create (returning (Data JNull)) \<lparr>key = KeyValue (JStr ''b''), initialValue = Data JUndefined\<rparr>]
     initial_world))
   \<and> cleanup 7 (run client_env
     [Create (returning (Data JNull)) \<lparr>key = KeyValue (JStr ''a''), initialValue = Data JUndefined\<rparr>,
      Create (returning (Data JNull)) \<lparr>key = KeyValue (JStr ''b''), initialValue = Data JUndefined\<rparr>]
     initial_world)
     = run client_env
     [Create (returning (Data JNull)) \<lparr>key = KeyValue (JStr ''a''), initialValue = Data JUndefined\<rparr>,
      Create (returning (Data JNull)) \<lparr>key = KeyValue (JStr ''b''), initialValue = Data JUndefined\<rparr>]
     initial_world
   \<and> refetch_calls (refetchRouteData JUndefined (cleanup 0 (run client_env
     [Create (returning (Data JNull)) \<lparr>key = KeyValue (JStr ''a''), initialValue = Data JUndefined\<rparr>,
      Create (returning (Data JNull)) \<lparr>key = KeyValue (JStr ''b''), initialValue = Data JUndefined\<rparr>]
     initial_world))) = [(1, JUndefined)]"
  using
    registry_lifecycle [OF refl, of client_env
      "[Create (returning (Data JNull)) \<lparr>key = KeyValue (JStr ''a''), initialValue = Data JUndefined\<rparr>,
        Create (returning (Data JNull)) \<lparr>key = KeyValue (JStr ''b''), initialValue = Data JUndefined\<rparr>]"
      0 "returning (Data JNull)" "\<lparr>key = KeyValue (JStr ''a''), initialValue = Data JUndefined\<rparr>" 1]
    registry_lifecycle [OF refl, of client_env
      "[Create (returning (Data JNull)) \<lparr>key = KeyValue (JStr ''a''), initialValue = Data JUndefined\<rparr>,
        Create (returning (Data JNull)) \<lparr>key = KeyValue (JStr ''b''), initialValue = Data JUndefined\<rparr>]"
      7 "returning (Data JNull)" "\<lparr>key = KeyValue (JStr ''a''), initialValue = Data JUndefined\<rparr>" 1]
  unfolding two_instances
  by (simp add: cleanup_def set_delete_def initial_world_def)

end
